theory Spec2Isabelle
  imports Main "HOL-Library.Word" "HOL-Library.AList" "HOL-Library.Multiset"
    "HOL-Library.Monad_Syntax"
begin

unbundle bit_operations_syntax

section \<open>Identity persistence of blnk: \<^verbatim>\<open>database/identity.go\<close>\<close>

text \<open>
  The file under verification holds the five data-access operations on the table
  \<^verbatim>\<open>blnk.identity\<close>: \<^verbatim>\<open>CreateIdentity\<close>, \<^verbatim>\<open>GetIdentityByID\<close>,
  \<^verbatim>\<open>GetAllIdentities\<close>, \<^verbatim>\<open>UpdateIdentity\<close> and \<^verbatim>\<open>DeleteIdentity\<close>.
  Each one is embedded as a function that takes the datasource (the table and the list
  of driver calls made so far) and returns its Go results together with the datasource
  afterwards. Every \<^verbatim>\<open>if err != nil\<close> of the source is a branch of the model; the
  errors of the driver that do not follow from the data (a lost connection, the
  one-minute timeout of the context) enter through a record of faults.
\<close>

subsection \<open>Go values: time, metadata, errors\<close>

text \<open>
  A \<^verbatim>\<open>time.Time\<close> is modelled by the instant it denotes, in nanoseconds after the
  zero time (January 1 of year 1, UTC); location and monotonic reading are not part of
  the instant. \<^verbatim>\<open>IsZero\<close> holds of the zero time only.
\<close>

type_synonym go_time = int

definition IsZero :: "go_time \<Rightarrow> bool" where
  "IsZero t \<longleftrightarrow> t = 0"

text \<open>
  The dynamic values of a \<^verbatim>\<open>map[string]interface{}\<close>, as far as
  \<^verbatim>\<open>encoding/json\<close> tells them apart: the six kinds it produces itself when it decodes
  into \<^verbatim>\<open>interface{}\<close>, and one kind, \<open>GoChan\<close>, for the values it refuses to encode
  (channels, functions, complex numbers). A \<^verbatim>\<open>float64\<close> is its IEEE 754 bit pattern;
  strings stand for valid UTF-8 text. A map is the list of its entries in the order in
  which the encoder writes them (sorted by key). Go integers and structs are outside
  this universe.
\<close>

datatype go_value =
    GoNil
  | GoBool bool
  | GoFloat64 "64 word"
  | GoString string
  | GoSlice "go_value list"
  | GoMap "(string \<times> go_value) list"
  | GoChan

text \<open>\<open>None\<close> is the nil map, \<open>Some []\<close> the map that is allocated and empty.\<close>

type_synonym metadata = "(string \<times> go_value) list option"

text \<open>
  A JSON document. A number literal is represented by the \<^verbatim>\<open>float64\<close> that
  \<^verbatim>\<open>strconv.ParseFloat\<close> reads from it; the literal that the encoder prints for a
  finite \<^verbatim>\<open>float64\<close> reads back as the same bits.
\<close>

datatype json =
    JNull
  | JBool bool
  | JNumber "64 word"
  | JString string
  | JArray "json list"
  | JObject "(string \<times> json) list"

text \<open>
  A \<^verbatim>\<open>[]byte\<close> that is read as JSON: either the text of a document, or bytes that are not
  a JSON text at all (the nil slice among them).
\<close>

datatype byte_slice = JSONText json | NotJSON

text \<open>NaN and the infinities have all eleven exponent bits set.\<close>

definition f64_finite :: "64 word \<Rightarrow> bool" where
  "f64_finite w \<longleftrightarrow> (drop_bit 52 w) AND 0x7FF \<noteq> 0x7FF"

fun all_some :: "'a option list \<Rightarrow> 'a list option" where
  "all_some [] = Some []"
| "all_some (None # xs) = None"
| "all_some (Some x # xs) = (case all_some xs of None \<Rightarrow> None | Some ys \<Rightarrow> Some (x # ys))"

text \<open>The encoder on one value; \<open>None\<close> is its error (unsupported type or value).\<close>

fun marshal_value :: "go_value \<Rightarrow> json option" where
  "marshal_value GoNil = Some JNull"
| "marshal_value (GoBool b) = Some (JBool b)"
| "marshal_value (GoFloat64 w) = (if f64_finite w then Some (JNumber w) else None)"
| "marshal_value (GoString s) = Some (JString s)"
| "marshal_value (GoSlice vs) = map_option JArray (all_some (map marshal_value vs))"
| "marshal_value (GoMap kvs) =
     map_option JObject (all_some (map (\<lambda>(k, v). map_option (Pair k) (marshal_value v)) kvs))"
| "marshal_value GoChan = None"

text \<open>The decoder into \<^verbatim>\<open>interface{}\<close>: it accepts every document.\<close>

fun unmarshal_value :: "json \<Rightarrow> go_value" where
  "unmarshal_value JNull = GoNil"
| "unmarshal_value (JBool b) = GoBool b"
| "unmarshal_value (JNumber w) = GoFloat64 w"
| "unmarshal_value (JString s) = GoString s"
| "unmarshal_value (JArray js) = GoSlice (map unmarshal_value js)"
| "unmarshal_value (JObject kvs) = GoMap (map (\<lambda>(k, j). (k, unmarshal_value j)) kvs)"

text \<open>
  \<^verbatim>\<open>json.Marshal(identity.MetaData)\<close>: the nil map encodes as \<^verbatim>\<open>null\<close>, any other map
  as an object; \<open>None\<close> is the error.
\<close>

definition json_Marshal :: "metadata \<Rightarrow> byte_slice option" where
  "json_Marshal m =
     (case m of
        None \<Rightarrow> Some (JSONText JNull)
      | Some kvs \<Rightarrow> map_option JSONText (marshal_value (GoMap kvs)))"

text \<open>
  \<^verbatim>\<open>json.Unmarshal(metaDataJSON, &identity.MetaData)\<close> where the destination is the nil
  map of a fresh \<^verbatim>\<open>Identity\<close>, as at both call sites: \<^verbatim>\<open>null\<close> leaves it nil, an object
  allocates a map, every other document and every malformed input is an error (\<open>None\<close>).
\<close>

definition json_Unmarshal :: "byte_slice \<Rightarrow> metadata option" where
  "json_Unmarshal b =
     (case b of
        NotJSON \<Rightarrow> None
      | JSONText JNull \<Rightarrow> Some None
      | JSONText (JObject kvs) \<Rightarrow> Some (Some (map (\<lambda>(k, j). (k, unmarshal_value j)) kvs))
      | JSONText _ \<Rightarrow> None)"

text \<open>
  Modelled from the spec: the struct \<^verbatim>\<open>model.Identity\<close> is declared outside the file. The
  spec's data model gives its fields: the identifier, the type, the person, organization,
  contact and address fields as strings, date of birth and creation time as timestamps,
  and the open metadata mapping.
\<close>

record Identity =
  IdentityID :: string
  IdentityType :: string
  OrganizationName :: string
  Category :: string
  FirstName :: string
  LastName :: string
  OtherNames :: string
  Gender :: string
  EmailAddress :: string
  PhoneNumber :: string
  Nationality :: string
  Street :: string
  Country :: string
  State :: string
  PostCode :: string
  City :: string
  DOB :: go_time
  CreatedAt :: go_time
  MetaData :: metadata

text \<open>\<^verbatim>\<open>model.Identity{}\<close>, the zero value.\<close>

definition zero_Identity :: Identity where
  "zero_Identity = \<lparr>IdentityID = [], IdentityType = [], OrganizationName = [], Category = [],
     FirstName = [], LastName = [], OtherNames = [], Gender = [], EmailAddress = [],
     PhoneNumber = [], Nationality = [], Street = [], Country = [], State = [], PostCode = [],
     City = [], DOB = 0, CreatedAt = 0, MetaData = None\<rparr>"

text \<open>
  Modelled from the spec: package \<^verbatim>\<open>apierror\<close> is outside the file. The spec names its three
  categories; an error carries its category and its message.
\<close>

datatype error_code = ErrNotFound | ErrBadRequest | ErrInternalServer

datatype api_error = NewAPIError (code: error_code) (message: string)

text \<open>
  Modelled from the spec: \<^verbatim>\<open>model.GenerateUUIDWithSuffix\<close> is outside the file. By the spec it
  returns an opaque token prefixed with the tag it is given; the token comes from the
  generator's random source, here an argument.
\<close>

definition GenerateUUIDWithSuffix :: "string \<Rightarrow> string \<Rightarrow> string" where
  "GenerateUUIDWithSuffix tag token = tag @ token"

subsection \<open>The store\<close>

text \<open>
  What a column holds and what the code passes as a statement argument: a string, a
  \<^verbatim>\<open>time.Time\<close>, a \<^verbatim>\<open>[]byte\<close>, or nothing (SQL \<^verbatim>\<open>NULL\<close>, Go \<^verbatim>\<open>nil\<close>). The store keeps a
  value as it was given.
\<close>

datatype db_value = DBText string | DBTime go_time | DBBytes byte_slice | DBNull

text \<open>A row gives a value to column names; a column it does not list is \<^verbatim>\<open>NULL\<close>.\<close>

type_synonym db_row = "(string \<times> db_value) list"

definition cell :: "db_row \<Rightarrow> string \<Rightarrow> db_value" where
  "cell r c = (case map_of r c of None \<Rightarrow> DBNull | Some v \<Rightarrow> v)"

text \<open>
  The column list shared by the \<^verbatim>\<open>INSERT\<close> and the two \<^verbatim>\<open>SELECT\<close> statements of the
  source, in their order.
\<close>

definition identity_columns :: "string list" where
  "identity_columns = [''identity_id'', ''identity_type'', ''first_name'', ''last_name'',
     ''other_names'', ''gender'', ''dob'', ''email_address'', ''phone_number'', ''nationality'',
     ''organization_name'', ''category'', ''street'', ''country'', ''state'', ''post_code'',
     ''city'', ''created_at'', ''meta_data'']"

text \<open>
  One item of a \<^verbatim>\<open>SET\<close> clause: the two arguments of
  \<^verbatim>\<open>fmt.Sprintf("%s = $%d", fieldName, argPosition)\<close>. The store reads the item, and
  \<open>assignment_text\<close> below prints it.
\<close>

datatype assignment = Assign (column: string) (placeholder: nat)

text \<open>
  The three statements the file executes: \<^verbatim>\<open>INSERT INTO blnk.identity (columns) VALUES
  ($1, ..., $n)\<close>, \<^verbatim>\<open>UPDATE blnk.identity SET items WHERE identity_id = $n\<close> and
  \<^verbatim>\<open>DELETE FROM blnk.identity WHERE identity_id = $1\<close>.
\<close>

datatype sql_stmt =
    InsertInto "string list"
  | UpdateSet "assignment list" nat
  | DeleteWhereID

datatype db_call =
    CallBeginTx
  | CallQueryRow string
  | CallRollback
  | CallCommit
  | CallExec sql_stmt "db_value list"
  | CallQuery

text \<open>
  \<^verbatim>\<open>d.Conn\<close>: the rows of \<^verbatim>\<open>blnk.identity\<close> and the calls the driver has received, oldest
  first.
\<close>

record Datasource =
  Conn_rows :: "db_row list"
  Conn_calls :: "db_call list"

text \<open>
  The failures of the driver during one operation that the data do not decide.
  \<open>rows_err_after = Some k\<close>: the iteration over a result set breaks after \<open>k\<close> rows.
\<close>

record faults =
  begin_fails :: bool
  query_fails :: bool
  commit_fails :: bool
  exec_fails :: bool
  rows_affected_fails :: bool
  rows_err_after :: "nat option"

definition no_faults :: faults where
  "no_faults = \<lparr>begin_fails = False, query_fails = False, commit_fails = False,
     exec_fails = False, rows_affected_fails = False, rows_err_after = None\<rparr>"

text \<open>The argument bound to placeholder \<^verbatim>\<open>$n\<close>; numbering starts at 1.\<close>

definition arg_at :: "db_value list \<Rightarrow> nat \<Rightarrow> db_value option" where
  "arg_at args n = (if 1 \<le> n \<and> n \<le> length args then Some (args ! (n - 1)) else None)"

text \<open>\<^verbatim>\<open>WHERE identity_id = v\<close>; a comparison with \<^verbatim>\<open>NULL\<close> selects nothing.\<close>

definition has_id :: "db_value \<Rightarrow> db_row \<Rightarrow> bool" where
  "has_id v r \<longleftrightarrow> v \<noteq> DBNull \<and> cell r ''identity_id'' = v"

text \<open>The column and value of each item; no value when a column or placeholder is unknown.\<close>

definition resolve_sets :: "assignment list \<Rightarrow> db_value list \<Rightarrow> (string \<times> db_value) list option" where
  "resolve_sets items args =
     all_some (map (\<lambda>a. if column a \<in> set identity_columns
                         then map_option (Pair (column a)) (arg_at args (placeholder a))
                         else None) items)"

definition write_cells :: "(string \<times> db_value) list \<Rightarrow> db_row \<Rightarrow> db_row" where
  "write_cells cvs r = fold (\<lambda>(c, v). AList.update c v) cvs r"

text \<open>
  Modelled from the spec: the schema of \<^verbatim>\<open>blnk.identity\<close> is outside the file. By the spec
  \<^verbatim>\<open>identity_id\<close> is the primary key, so an insert with a missing or already stored
  identifier is refused.

  The effect of a statement on the rows, with the number of rows affected; \<open>None\<close> when the
  store rejects the statement.
\<close>

fun db_exec :: "sql_stmt \<Rightarrow> db_value list \<Rightarrow> db_row list \<Rightarrow> (db_row list \<times> nat) option" where
  "db_exec (InsertInto cols) args rows =
     (if length args \<noteq> length cols \<or> \<not> distinct cols \<or> \<not> set cols \<subseteq> set identity_columns
      then None
      else let r = zip cols args in
        if cell r ''identity_id'' = DBNull \<or> (\<exists>x \<in> set rows. has_id (cell r ''identity_id'') x)
        then None
        else Some (rows @ [r], 1))"
| "db_exec (UpdateSet items n) args rows =
     (if \<not> distinct (map column items) then None
      else case resolve_sets items args of
        None \<Rightarrow> None
      | Some cvs \<Rightarrow>
          (case arg_at args n of
             None \<Rightarrow> None
           | Some v \<Rightarrow>
               Some (map (\<lambda>r. if has_id v r then write_cells cvs r else r) rows,
                     length (filter (has_id v) rows))))"
| "db_exec DeleteWhereID args rows =
     (case arg_at args 1 of
        None \<Rightarrow> None
      | Some v \<Rightarrow> Some (filter (\<lambda>r. \<not> has_id v r) rows, length (filter (has_id v) rows)))"

text \<open>\<^verbatim>\<open>d.Conn.Exec(query, args...)\<close>; the first component is \<^verbatim>\<open>result.RowsAffected\<close>'s count, or \<open>None\<close> for \<^verbatim>\<open>err != nil\<close>.\<close>

definition conn_Exec :: "faults \<Rightarrow> sql_stmt \<Rightarrow> db_value list \<Rightarrow> Datasource \<Rightarrow> nat option \<times> Datasource" where
  "conn_Exec f stmt args d =
     (let d1 = d\<lparr>Conn_calls := Conn_calls d @ [CallExec stmt args]\<rparr> in
      if exec_fails f then (None, d1)
      else case db_exec stmt args (Conn_rows d) of
        None \<Rightarrow> (None, d1)
      | Some (rows', n) \<Rightarrow> (Some n, d1\<lparr>Conn_rows := rows'\<rparr>))"

definition conn_BeginTx :: "faults \<Rightarrow> Datasource \<Rightarrow> bool \<times> Datasource" where
  "conn_BeginTx f d = (\<not> begin_fails f, d\<lparr>Conn_calls := Conn_calls d @ [CallBeginTx]\<rparr>)"

definition tx_Rollback :: "Datasource \<Rightarrow> Datasource" where
  "tx_Rollback d = d\<lparr>Conn_calls := Conn_calls d @ [CallRollback]\<rparr>"

definition tx_Commit :: "faults \<Rightarrow> Datasource \<Rightarrow> bool \<times> Datasource" where
  "tx_Commit f d = (\<not> commit_fails f, d\<lparr>Conn_calls := Conn_calls d @ [CallCommit]\<rparr>)"

text \<open>
  What \<^verbatim>\<open>tx.QueryRow\<close> hands to \<^verbatim>\<open>Scan\<close>: the error of the query, no row, or the selected
  columns of the first row found.
\<close>

datatype sql_row = RowError | NoRows | Row "db_value list"

definition tx_QueryRow :: "faults \<Rightarrow> string \<Rightarrow> Datasource \<Rightarrow> sql_row \<times> Datasource" where
  "tx_QueryRow f ident d =
     (let d1 = d\<lparr>Conn_calls := Conn_calls d @ [CallQueryRow ident]\<rparr> in
      if query_fails f then (RowError, d1)
      else case filter (has_id (DBText ident)) (Conn_rows d) of
        [] \<Rightarrow> (NoRows, d1)
      | r # _ \<Rightarrow> (Row (map (cell r) identity_columns), d1))"

text \<open>
  \<^verbatim>\<open>Scan\<close> into a \<^verbatim>\<open>*string\<close>, a \<^verbatim>\<open>*time.Time\<close> and a \<^verbatim>\<open>*[]byte\<close>. Text columns hold strings
  and timestamp columns hold times; \<^verbatim>\<open>NULL\<close> converts to neither, and to the nil slice.
\<close>

definition scan_string :: "db_value \<Rightarrow> string option" where
  "scan_string v = (case v of DBText s \<Rightarrow> Some s | _ \<Rightarrow> None)"

definition scan_time :: "db_value \<Rightarrow> go_time option" where
  "scan_time v = (case v of DBTime t \<Rightarrow> Some t | _ \<Rightarrow> None)"

definition scan_bytes :: "db_value \<Rightarrow> byte_slice option" where
  "scan_bytes v = (case v of DBBytes b \<Rightarrow> Some b | DBNull \<Rightarrow> Some NotJSON | _ \<Rightarrow> None)"

text \<open>
  The nineteen destinations of both \<^verbatim>\<open>Scan\<close> calls, by position: the fields of a fresh
  \<^verbatim>\<open>Identity\<close> and \<^verbatim>\<open>metaDataJSON\<close>. \<open>None\<close> is \<^verbatim>\<open>err != nil\<close>.
\<close>

definition Scan :: "db_value list \<Rightarrow> (Identity \<times> byte_slice) option" where
  "Scan vs =
     (if length vs \<noteq> 19 then None
      else do {
        identityID \<leftarrow> scan_string (vs ! 0);
        identityType \<leftarrow> scan_string (vs ! 1);
        firstName \<leftarrow> scan_string (vs ! 2);
        lastName \<leftarrow> scan_string (vs ! 3);
        otherNames \<leftarrow> scan_string (vs ! 4);
        gender \<leftarrow> scan_string (vs ! 5);
        dob \<leftarrow> scan_time (vs ! 6);
        emailAddress \<leftarrow> scan_string (vs ! 7);
        phoneNumber \<leftarrow> scan_string (vs ! 8);
        nationality \<leftarrow> scan_string (vs ! 9);
        organizationName \<leftarrow> scan_string (vs ! 10);
        category \<leftarrow> scan_string (vs ! 11);
        street \<leftarrow> scan_string (vs ! 12);
        country \<leftarrow> scan_string (vs ! 13);
        state \<leftarrow> scan_string (vs ! 14);
        postCode \<leftarrow> scan_string (vs ! 15);
        city \<leftarrow> scan_string (vs ! 16);
        createdAt \<leftarrow> scan_time (vs ! 17);
        metaDataJSON \<leftarrow> scan_bytes (vs ! 18);
        Some (zero_Identity\<lparr>IdentityID := identityID, IdentityType := identityType,
                FirstName := firstName, LastName := lastName, OtherNames := otherNames,
                Gender := gender, DOB := dob, EmailAddress := emailAddress,
                PhoneNumber := phoneNumber, Nationality := nationality,
                OrganizationName := organizationName, Category := category,
                Street := street, Country := country, State := state, PostCode := postCode,
                City := city, CreatedAt := createdAt\<rparr>,
              metaDataJSON)
      })"

text \<open>\<^verbatim>\<open>row.Scan\<close> of \<^verbatim>\<open>GetIdentityByID\<close>: it reports the query's error or \<^verbatim>\<open>sql.ErrNoRows\<close> first.\<close>

datatype scan_error = ErrNoRows | ErrOther

definition row_Scan :: "sql_row \<Rightarrow> scan_error + (Identity \<times> byte_slice)" where
  "row_Scan r =
     (case r of
        RowError \<Rightarrow> Inl ErrOther
      | NoRows \<Rightarrow> Inl ErrNoRows
      | Row vs \<Rightarrow> (case Scan vs of None \<Rightarrow> Inl ErrOther | Some x \<Rightarrow> Inr x))"






subsection \<open>The five operations\<close>

text \<open>The nineteen arguments of the \<^verbatim>\<open>INSERT\<close>, in the order of the source.\<close>

definition insert_args :: "Identity \<Rightarrow> byte_slice \<Rightarrow> db_value list" where
  "insert_args identity metaDataJSON =
     [DBText (IdentityID identity), DBText (IdentityType identity), DBText (FirstName identity),
      DBText (LastName identity), DBText (OtherNames identity), DBText (Gender identity),
      DBTime (DOB identity), DBText (EmailAddress identity), DBText (PhoneNumber identity),
      DBText (Nationality identity), DBText (OrganizationName identity),
      DBText (Category identity), DBText (Street identity), DBText (Country identity),
      DBText (State identity), DBText (PostCode identity), DBText (City identity),
      DBTime (CreatedAt identity), DBBytes metaDataJSON]"

text \<open>
  \<^verbatim>\<open>CreateIdentity\<close>. \<open>token\<close> is what the identifier generator draws and \<open>now\<close> what
  \<^verbatim>\<open>time.Now()\<close> reads during the call. The result is the pair that Go returns: the
  identity, and the error or \<open>None\<close> for \<^verbatim>\<open>nil\<close>.
\<close>

definition CreateIdentity ::
    "faults \<Rightarrow> string \<Rightarrow> go_time \<Rightarrow> Identity \<Rightarrow> Datasource \<Rightarrow> (Identity \<times> api_error option) \<times> Datasource" where
  "CreateIdentity f token now identity d =
     (case json_Marshal (MetaData identity) of
        None \<Rightarrow>
          ((identity, Some (NewAPIError ErrInternalServer ''Failed to marshal metadata'')), d)
      | Some metaDataJSON \<Rightarrow>
          let identity1 = identity\<lparr>IdentityID := GenerateUUIDWithSuffix ''idt'' token, CreatedAt := now\<rparr>;
              (res, d1) = conn_Exec f (InsertInto identity_columns) (insert_args identity1 metaDataJSON) d
          in (case res of
                None \<Rightarrow>
                  ((identity1, Some (NewAPIError ErrInternalServer ''Failed to create identity'')), d1)
              | Some _ \<Rightarrow> ((identity1, None), d1)))"

definition not_found_message :: "string \<Rightarrow> string" where
  "not_found_message ident = ''Identity with ID '' @ [CHR 0x27] @ ident @ [CHR 0x27] @ '' not found''"

text \<open>\<^verbatim>\<open>GetIdentityByID\<close>: \<open>Inl\<close> is \<^verbatim>\<open>(nil, err)\<close>, \<open>Inr\<close> is \<^verbatim>\<open>(identity, nil)\<close>.\<close>

definition GetIdentityByID :: "faults \<Rightarrow> string \<Rightarrow> Datasource \<Rightarrow> (api_error + Identity) \<times> Datasource" where
  "GetIdentityByID f ident d =
     (case conn_BeginTx f d of
        (False, d1) \<Rightarrow>
          (Inl (NewAPIError ErrInternalServer ''Failed to begin transaction''), d1)
      | (True, d1) \<Rightarrow>
          let (row, d2) = tx_QueryRow f ident d1 in
          (case row_Scan row of
             Inl err \<Rightarrow>
               let d3 = tx_Rollback d2 in
               if err = ErrNoRows
               then (Inl (NewAPIError ErrNotFound (not_found_message ident)), d3)
               else (Inl (NewAPIError ErrInternalServer ''Failed to retrieve identity''), d3)
           | Inr (identity, metaDataJSON) \<Rightarrow>
               (case json_Unmarshal metaDataJSON of
                  None \<Rightarrow>
                    let d3 = tx_Rollback d2 in
                    (Inl (NewAPIError ErrInternalServer ''Failed to unmarshal metadata''), d3)
                | Some m \<Rightarrow>
                    (case tx_Commit f d2 of
                       (False, d3) \<Rightarrow>
                         (Inl (NewAPIError ErrInternalServer ''Failed to commit transaction''), d3)
                     | (True, d3) \<Rightarrow> (Inr (identity\<lparr>MetaData := m\<rparr>), d3)))))"



text \<open>The three variables that the closure \<^verbatim>\<open>addField\<close> of \<^verbatim>\<open>UpdateIdentity\<close> captures.\<close>

record builder =
  setFields :: "assignment list"
  args :: "db_value list"
  argPosition :: nat

text \<open>The three statements that each branch of \<^verbatim>\<open>addField\<close> and the metadata block repeat.\<close>

definition append_field :: "string \<Rightarrow> db_value \<Rightarrow> builder \<Rightarrow> builder" where
  "append_field fieldName v s =
     s\<lparr>setFields := setFields s @ [Assign fieldName (argPosition s)],
       args := args s @ [v],
       argPosition := argPosition s + 1\<rparr>"

text \<open>The type switch of \<^verbatim>\<open>addField\<close>: \<^verbatim>\<open>time.Time\<close>, \<^verbatim>\<open>string\<close>, \<^verbatim>\<open>default\<close>.\<close>

definition addField :: "db_value \<Rightarrow> string \<Rightarrow> builder \<Rightarrow> builder" where
  "addField val fieldName s =
     (case val of
        DBTime v \<Rightarrow> if \<not> IsZero v then append_field fieldName (DBTime v) s else s
      | DBText v \<Rightarrow> if v \<noteq> [] then append_field fieldName (DBText v) s else s
      | v \<Rightarrow> if v \<noteq> DBNull then append_field fieldName v s else s)"

text \<open>
  \<^verbatim>\<open>UpdateIdentity\<close> up to the check of \<^verbatim>\<open>len(setFields)\<close>: the sixteen calls of
  \<^verbatim>\<open>addField\<close> and the metadata block. \<open>Inl\<close> is the early return of that block.
\<close>

definition collect_fields :: "Identity \<Rightarrow> api_error + builder" where
  "collect_fields identity =
     (let s0 = \<lparr>setFields = [], args = [], argPosition = 1\<rparr>;
          s1 = addField (DBText (IdentityType identity)) ''identity_type'' s0;
          s2 = addField (DBText (FirstName identity)) ''first_name'' s1;
          s3 = addField (DBText (LastName identity)) ''last_name'' s2;
          s4 = addField (DBText (OtherNames identity)) ''other_names'' s3;
          s5 = addField (DBText (Gender identity)) ''gender'' s4;
          s6 = addField (DBTime (DOB identity)) ''dob'' s5;
          s7 = addField (DBText (EmailAddress identity)) ''email_address'' s6;
          s8 = addField (DBText (PhoneNumber identity)) ''phone_number'' s7;
          s9 = addField (DBText (Nationality identity)) ''nationality'' s8;
          s10 = addField (DBText (OrganizationName identity)) ''organization_name'' s9;
          s11 = addField (DBText (Category identity)) ''category'' s10;
          s12 = addField (DBText (Street identity)) ''street'' s11;
          s13 = addField (DBText (Country identity)) ''country'' s12;
          s14 = addField (DBText (State identity)) ''state'' s13;
          s15 = addField (DBText (PostCode identity)) ''post_code'' s14;
          s16 = addField (DBText (City identity)) ''city'' s15
      in if MetaData identity \<noteq> None
         then (case json_Marshal (MetaData identity) of
                 None \<Rightarrow> Inl (NewAPIError ErrInternalServer ''Failed to marshal metadata'')
               | Some metaDataJSON \<Rightarrow> Inr (append_field ''meta_data'' (DBBytes metaDataJSON) s16))
         else Inr s16)"

text \<open>\<^verbatim>\<open>fmt\<close>'s \<^verbatim>\<open>%d\<close> of a number that is not negative, and \<^verbatim>\<open>strings.Join\<close>.\<close>

function decimal :: "nat \<Rightarrow> string" where
  "decimal n = (if n < 10 then [''0123456789'' ! n] else decimal (n div 10) @ [''0123456789'' ! (n mod 10)])"
  by pat_completeness auto
termination
  by (relation "measure (\<lambda>n. n)") auto

declare decimal.simps [simp del]

fun Join :: "string list \<Rightarrow> string \<Rightarrow> string" where
  "Join [] sep = []"
| "Join [x] sep = x"
| "Join (x # y # xs) sep = x @ sep @ Join (y # xs) sep"

definition assignment_text :: "assignment \<Rightarrow> string" where
  "assignment_text a = column a @ '' = $'' @ decimal (placeholder a)"

text \<open>The text that \<^verbatim>\<open>fmt.Sprintf\<close> builds for the \<^verbatim>\<open>UPDATE\<close>; line breaks as in the source.\<close>

definition update_query :: "assignment list \<Rightarrow> nat \<Rightarrow> string" where
  "update_query items n =
     [CHR 0x0A, CHR 0x09, CHR 0x09] @ ''UPDATE blnk.identity'' @
     [CHR 0x0A, CHR 0x09, CHR 0x09] @ ''SET '' @ Join (map assignment_text items) '', '' @
     [CHR 0x0A, CHR 0x09, CHR 0x09] @ ''WHERE identity_id = $'' @ decimal n @
     [CHR 0x0A, CHR 0x09]"

text \<open>\<^verbatim>\<open>UpdateIdentity\<close>: the error, or \<open>None\<close> for \<^verbatim>\<open>nil\<close>.\<close>

definition UpdateIdentity :: "faults \<Rightarrow> Identity \<Rightarrow> Datasource \<Rightarrow> api_error option \<times> Datasource" where
  "UpdateIdentity f identity d =
     (case collect_fields identity of
        Inl e \<Rightarrow> (Some e, d)
      | Inr s \<Rightarrow>
          if length (setFields s) = 0
          then (Some (NewAPIError ErrBadRequest ''No fields provided for update''), d)
          else
            let query = UpdateSet (setFields s) (argPosition s);
                s' = s\<lparr>args := args s @ [DBText (IdentityID identity)]\<rparr>;
                (result, d1) = conn_Exec f query (args s') d
            in (case result of
                  None \<Rightarrow> (Some (NewAPIError ErrInternalServer ''Failed to update identity''), d1)
                | Some rowsAffected \<Rightarrow>
                    if rows_affected_fails f
                    then (Some (NewAPIError ErrInternalServer ''Failed to get rows affected''), d1)
                    else if rowsAffected = 0
                    then (Some (NewAPIError ErrNotFound (not_found_message (IdentityID identity))), d1)
                    else (None, d1)))"

text \<open>\<^verbatim>\<open>DeleteIdentity\<close>.\<close>

definition DeleteIdentity :: "faults \<Rightarrow> string \<Rightarrow> Datasource \<Rightarrow> api_error option \<times> Datasource" where
  "DeleteIdentity f ident d =
     (let (result, d1) = conn_Exec f DeleteWhereID [DBText ident] d
      in (case result of
            None \<Rightarrow> (Some (NewAPIError ErrInternalServer ''Failed to delete identity''), d1)
          | Some rowsAffected \<Rightarrow>
              if rows_affected_fails f
              then (Some (NewAPIError ErrInternalServer ''Failed to get rows affected''), d1)
              else if rowsAffected = 0
              then (Some (NewAPIError ErrNotFound (not_found_message ident)), d1)
              else (None, d1)))"

subsection \<open>The partial update as the specification words it\<close>

text \<open>
  The updatable fields in the canonical order of the entity, each with its column, and
  the rule that decides whether a value takes part in an update: a string when it is not
  empty, a time when it is not zero, a value of another type when it is not nil.
\<close>

definition canonical_fields :: "Identity \<Rightarrow> (string \<times> db_value) list" where
  "canonical_fields identity =
     [(''identity_type'', DBText (IdentityType identity)),
      (''first_name'', DBText (FirstName identity)),
      (''last_name'', DBText (LastName identity)),
      (''other_names'', DBText (OtherNames identity)),
      (''gender'', DBText (Gender identity)),
      (''dob'', DBTime (DOB identity)),
      (''email_address'', DBText (EmailAddress identity)),
      (''phone_number'', DBText (PhoneNumber identity)),
      (''nationality'', DBText (Nationality identity)),
      (''organization_name'', DBText (OrganizationName identity)),
      (''category'', DBText (Category identity)),
      (''street'', DBText (Street identity)),
      (''country'', DBText (Country identity)),
      (''state'', DBText (State identity)),
      (''post_code'', DBText (PostCode identity)),
      (''city'', DBText (City identity))]"

fun qualifies :: "db_value \<Rightarrow> bool" where
  "qualifies (DBText s) = (s \<noteq> [])"
| "qualifies (DBTime t) = (t \<noteq> 0)"
| "qualifies (DBBytes b) = True"
| "qualifies DBNull = False"

text \<open>The metadata entry of the update: present when the mapping is not nil and encodes.\<close>

definition metadata_field :: "Identity \<Rightarrow> (string \<times> db_value) list" where
  "metadata_field identity =
     (case MetaData identity of
        None \<Rightarrow> []
      | Some kvs \<Rightarrow>
          (case json_Marshal (Some kvs) of
             None \<Rightarrow> []
           | Some b \<Rightarrow> [(''meta_data'', DBBytes b)]))"

definition contributing :: "Identity \<Rightarrow> (string \<times> db_value) list" where
  "contributing identity =
     filter (\<lambda>(c, v). qualifies v) (canonical_fields identity) @ metadata_field identity"

text \<open>Placeholders numbered one after the other from \<open>n\<close>.\<close>

fun number_from :: "nat \<Rightarrow> (string \<times> db_value) list \<Rightarrow> assignment list" where
  "number_from n [] = []"
| "number_from n ((c, v) # rest) = Assign c n # number_from (Suc n) rest"

text \<open>The columns of the \<^verbatim>\<open>SET\<close> clause that \<^verbatim>\<open>UpdateIdentity\<close> builds for an input.\<close>

definition update_columns :: "Identity \<Rightarrow> string list" where
  "update_columns identity =
     (case collect_fields identity of Inl _ \<Rightarrow> [] | Inr s \<Rightarrow> map column (setFields s))"

text \<open>
  A column whose field of the input does not qualify: an updatable field that is empty or
  zero, or the metadata when the mapping is nil.
\<close>

definition did_not_qualify :: "Identity \<Rightarrow> string \<Rightarrow> bool" where
  "did_not_qualify identity c \<longleftrightarrow>
     list_ex (\<lambda>(c', v). c' = c \<and> \<not> qualifies v) (canonical_fields identity)
     \<or> (c = ''meta_data'' \<and> MetaData identity = None)"

text \<open>The canonical order of the columns an update can set, as the specification lists it.\<close>

definition update_order :: "string list" where
  "update_order = [''identity_type'', ''first_name'', ''last_name'', ''other_names'', ''gender'',
     ''dob'', ''email_address'', ''phone_number'', ''nationality'', ''organization_name'',
     ''category'', ''street'', ''country'', ''state'', ''post_code'', ''city'', ''meta_data'']"



section \<open>Properties\<close>

subsection \<open>The metadata codec\<close>




subsection \<open>Creation\<close>

text \<open>
  C10. When the metadata of the input does not serialize, \<^verbatim>\<open>CreateIdentity\<close> returns at
  once: the identity that comes back with the internal error is the caller's own, with its
  \<^verbatim>\<open>IdentityID\<close> and \<^verbatim>\<open>CreatedAt\<close> as they were, whatever the generator and the clock would
  have produced, and the datasource is as before: its rows are unchanged and the driver
  has received no call, so no insert was attempted.
\<close>

theorem CreateIdentity_marshal_failure:
  assumes "json_Marshal (MetaData identity) = None"
  shows "CreateIdentity f token now identity d =
           ((identity, Some (NewAPIError ErrInternalServer ''Failed to marshal metadata'')), d)"
  using assms by (simp add: CreateIdentity_def)

theorem CreateIdentity_marshal_failure_witness:
  "json_Marshal (MetaData (zero_Identity\<lparr>IdentityID := ''mine'', CreatedAt := 7,
       MetaData := Some [(''c'', GoChan)]\<rparr>)) = None
   \<and> CreateIdentity no_faults ''_1'' 100
        (zero_Identity\<lparr>IdentityID := ''mine'', CreatedAt := 7, MetaData := Some [(''c'', GoChan)]\<rparr>)
        \<lparr>Conn_rows = [], Conn_calls = []\<rparr>
     = ((zero_Identity\<lparr>IdentityID := ''mine'', CreatedAt := 7, MetaData := Some [(''c'', GoChan)]\<rparr>,
         Some (NewAPIError ErrInternalServer ''Failed to marshal metadata'')),
        \<lparr>Conn_rows = [], Conn_calls = []\<rparr>)"
proof -
  have h: "json_Marshal (MetaData (zero_Identity\<lparr>IdentityID := ''mine'', CreatedAt := 7,
       MetaData := Some [(''c'', GoChan)]\<rparr>)) = None"
    by (simp add: json_Marshal_def)
  show ?thesis using h CreateIdentity_marshal_failure [OF h] by simp
qed

subsection \<open>Building the update statement\<close>

lemma addField_qualifies:
  "addField v c s = (if qualifies v then append_field c v s else s)"
  by (cases v) (simp_all add: addField_def IsZero_def)

lemma column_number_from: "map column (number_from n xs) = map fst xs"
  by (induction xs arbitrary: n) auto

lemma placeholder_number_from: "map placeholder (number_from n xs) = [n ..< n + length xs]"
proof (induction xs arbitrary: n)
  case Nil
  show ?case by simp
next
  case (Cons p xs)
  obtain c v where p: "p = (c, v)" by (cases p)
  have "[n ..< n + length (p # xs)] = n # [Suc n ..< Suc n + length xs]"
    by (subst upt_rec) simp
  then show ?case using Cons.IH [of "Suc n"] p by simp
qed

lemma length_number_from: "length (number_from n xs) = length xs"
  by (induction xs arbitrary: n) auto

lemma number_from_append:
  "number_from n (xs @ ys) = number_from n xs @ number_from (n + length xs) ys"
  by (induction xs arbitrary: n) auto

lemma append_step:
  "fold (\<lambda>(c, v) s. if qualifies v then append_field c v s else s) ((c, v) # fs) s =
   fold (\<lambda>(c, v) s. if qualifies v then append_field c v s else s) fs
     (if qualifies v then append_field c v s else s)"
  by simp

lemma fold_append_if:
  "fold (\<lambda>(c, v) s. if qualifies v then append_field c v s else s) fs s =
     \<lparr>setFields = setFields s @ number_from (argPosition s) (filter (\<lambda>(c, v). qualifies v) fs),
      args = args s @ map snd (filter (\<lambda>(c, v). qualifies v) fs),
      argPosition = argPosition s + length (filter (\<lambda>(c, v). qualifies v) fs)\<rparr>"
proof (induction fs arbitrary: s)
  case Nil
  show ?case by simp
next
  case (Cons p fs)
  obtain c v where p: "p = (c, v)" by (cases p)
  show ?case
  proof (cases "qualifies v")
    case True
    show ?thesis
      unfolding p append_step
      by (simp only: Cons.IH True if_True) (simp add: append_field_def True)
  next
    case False
    show ?thesis
      unfolding p append_step
      by (simp only: Cons.IH False if_False) (simp add: False)
  qed
qed


lemma fold_addField:
  "fold (\<lambda>(c, v). addField v c) fs s =
     \<lparr>setFields = setFields s @ number_from (argPosition s) (filter (\<lambda>(c, v). qualifies v) fs),
      args = args s @ map snd (filter (\<lambda>(c, v). qualifies v) fs),
      argPosition = argPosition s + length (filter (\<lambda>(c, v). qualifies v) fs)\<rparr>"
proof -
  have "(\<lambda>(c, v). addField v c) = (\<lambda>(c, v) s. if qualifies v then append_field c v s else s)"
    by (simp add: fun_eq_iff addField_qualifies)
  then show ?thesis by (simp only: fold_append_if)
qed

lemma collect_fields_fold:
  "collect_fields identity =
     (let s16 = fold (\<lambda>(c, v). addField v c) (canonical_fields identity)
                  \<lparr>setFields = [], args = [], argPosition = 1\<rparr>
      in if MetaData identity \<noteq> None
         then (case json_Marshal (MetaData identity) of
                 None \<Rightarrow> Inl (NewAPIError ErrInternalServer ''Failed to marshal metadata'')
               | Some metaDataJSON \<Rightarrow> Inr (append_field ''meta_data'' (DBBytes metaDataJSON) s16))
         else Inr s16)"
  unfolding collect_fields_def canonical_fields_def Let_def fold_simps case_prod_conv o_apply
  by (rule refl)


lemma collect_fields_contributing:
  "collect_fields identity =
     (if MetaData identity \<noteq> None \<and> json_Marshal (MetaData identity) = None
      then Inl (NewAPIError ErrInternalServer ''Failed to marshal metadata'')
      else Inr \<lparr>setFields = number_from 1 (contributing identity),
                args = map snd (contributing identity),
                argPosition = Suc (length (contributing identity))\<rparr>)"
proof (cases "MetaData identity")
  case None
  then show ?thesis
    by (simp add: collect_fields_fold fold_addField contributing_def metadata_field_def)
next
  case (Some kvs)
  show ?thesis
  proof (cases "json_Marshal (Some kvs)")
    case None
    with Some show ?thesis by (simp add: collect_fields_fold)
  next
    case (Some b)
    with \<open>MetaData identity = Some kvs\<close> show ?thesis
      by (simp add: collect_fields_fold fold_addField contributing_def metadata_field_def
            append_field_def number_from_append)
  qed
qed

lemma fst_canonical_fields:
  "map fst (canonical_fields identity) =
     [''identity_type'', ''first_name'', ''last_name'', ''other_names'', ''gender'', ''dob'',
      ''email_address'', ''phone_number'', ''nationality'', ''organization_name'', ''category'',
      ''street'', ''country'', ''state'', ''post_code'', ''city'']"
  by (simp add: canonical_fields_def)

lemma fst_metadata_field: "set (map fst (metadata_field identity)) \<subseteq> {''meta_data''}"
  by (cases "MetaData identity"; cases "json_Marshal (MetaData identity)")
     (simp_all add: metadata_field_def)

lemma distinct_contributing: "distinct (map fst (contributing identity))"
proof -
  let ?q = "filter (\<lambda>(c, v). qualifies v) (canonical_fields identity)"
  have d1: "distinct (map fst ?q)"
    by (rule distinct_map_filter) (simp add: fst_canonical_fields)
  have "set (map fst ?q) \<subseteq> set (map fst (canonical_fields identity))" by auto
  then have nm: "''meta_data'' \<notin> set (map fst ?q)"
    unfolding fst_canonical_fields by auto
  have d2: "distinct (map fst (metadata_field identity))"
    by (simp add: metadata_field_def split: option.splits)
  show ?thesis
    unfolding contributing_def map_append distinct_append
    using d1 d2 nm fst_metadata_field [of identity] by blast
qed

lemma columns_contributing:
  "set (map fst (contributing identity)) \<subseteq> set identity_columns - {''identity_id'', ''created_at''}"
proof -
  let ?q = "filter (\<lambda>(c, v). qualifies v) (canonical_fields identity)"
  have "set (map fst ?q) \<subseteq> set (map fst (canonical_fields identity))" by auto
  then have "set (map fst ?q) \<subseteq> set identity_columns - {''identity_id'', ''created_at''}"
    unfolding fst_canonical_fields identity_columns_def by auto
  moreover have "set (map fst (metadata_field identity)) \<subseteq> set identity_columns - {''identity_id'', ''created_at''}"
    using fst_metadata_field [of identity] by (auto simp: identity_columns_def)
  ultimately show ?thesis unfolding contributing_def map_append set_append by blast
qed

subsection \<open>The effect of the update statement on the rows\<close>

lemma cell_update: "cell (AList.update k v r) c = (if c = k then v else cell r c)"
  by (simp add: cell_def update_conv')

lemma cell_write_cells_other:
  "c \<notin> fst ` set cvs \<Longrightarrow> cell (write_cells cvs r) c = cell r c"
proof (induction cvs arbitrary: r)
  case Nil
  show ?case by (simp add: write_cells_def)
next
  case (Cons p cvs)
  obtain k v where p: "p = (k, v)" by (cases p)
  have "cell (write_cells cvs (AList.update k v r)) c = cell (AList.update k v r) c"
    using Cons.IH Cons.prems by simp
  also have "\<dots> = cell r c" using Cons.prems p by (simp add: cell_update)
  finally show ?case using p by (simp add: write_cells_def)
qed


lemma arg_at_middle: "arg_at (pre @ v # post) (Suc (length pre)) = Some v"
  by (simp add: arg_at_def)

lemma resolve_sets_number_from:
  "fst ` set q \<subseteq> set identity_columns \<Longrightarrow>
   resolve_sets (number_from (Suc (length pre)) q) (pre @ map snd q @ post) = Some q"
proof (induction q arbitrary: pre)
  case Nil
  show ?case by (simp add: resolve_sets_def)
next
  case (Cons p q)
  obtain c v where p: "p = (c, v)" by (cases p)
  from Cons.prems p have c: "c \<in> set identity_columns" and rest: "fst ` set q \<subseteq> set identity_columns"
    by auto
  have "resolve_sets (number_from (Suc (length (pre @ [v]))) q) ((pre @ [v]) @ map snd q @ post) = Some q"
    using Cons.IH [OF rest] .
  then have ih: "resolve_sets (number_from (Suc (Suc (length pre))) q) (pre @ v # map snd q @ post) = Some q"
    by simp
  have "resolve_sets (number_from (Suc (length pre)) (p # q)) (pre @ map snd (p # q) @ post)
      = (case resolve_sets (number_from (Suc (Suc (length pre))) q) (pre @ v # map snd q @ post) of
           None \<Rightarrow> None | Some ys \<Rightarrow> Some ((c, v) # ys))"
    using c by (simp add: p resolve_sets_def arg_at_middle)
  with ih show ?case by (simp add: p)
qed

lemma db_exec_update:
  assumes "distinct (map fst q)" and "fst ` set q \<subseteq> set identity_columns"
  shows "db_exec (UpdateSet (number_from 1 q) (Suc (length q))) (map snd q @ [w]) rows =
           Some (map (\<lambda>r. if has_id w r then write_cells q r else r) rows,
                 length (filter (has_id w) rows))"
proof -
  have r: "resolve_sets (number_from 1 q) (map snd q @ [w]) = Some q"
    using resolve_sets_number_from [OF assms(2), of "[]" "[w]"] by simp
  have a: "arg_at (map snd q @ [w]) (Suc (length q)) = Some w"
    using arg_at_middle [of "map snd q" w "[]"] by simp
  show ?thesis using assms(1) r a by (simp add: column_number_from)
qed

lemma UpdateIdentity_unfold:
  "UpdateIdentity f identity d =
     (if MetaData identity \<noteq> None \<and> json_Marshal (MetaData identity) = None
      then (Some (NewAPIError ErrInternalServer ''Failed to marshal metadata''), d)
      else if contributing identity = []
      then (Some (NewAPIError ErrBadRequest ''No fields provided for update''), d)
      else
        let q = contributing identity;
            w = DBText (IdentityID identity);
            d1 = d\<lparr>Conn_calls := Conn_calls d @
                   [CallExec (UpdateSet (number_from 1 q) (Suc (length q))) (map snd q @ [w])]\<rparr>;
            d2 = d1\<lparr>Conn_rows := map (\<lambda>r. if has_id w r then write_cells q r else r) (Conn_rows d)\<rparr>
        in if exec_fails f
           then (Some (NewAPIError ErrInternalServer ''Failed to update identity''), d1)
           else if rows_affected_fails f
           then (Some (NewAPIError ErrInternalServer ''Failed to get rows affected''), d2)
           else if filter (has_id w) (Conn_rows d) = []
           then (Some (NewAPIError ErrNotFound (not_found_message (IdentityID identity))), d2)
           else (None, d2))"
proof -
  let ?q = "contributing identity"
  let ?w = "DBText (IdentityID identity)"
  let ?stmt = "UpdateSet (number_from (Suc 0) ?q) (Suc (length ?q))"
  let ?d1 = "d\<lparr>Conn_calls := Conn_calls d @ [CallExec ?stmt (map snd ?q @ [?w])]\<rparr>"
  let ?d2 = "?d1\<lparr>Conn_rows := map (\<lambda>r. if has_id ?w r then write_cells ?q r else r) (Conn_rows d)\<rparr>"
  have cols: "fst ` set ?q \<subseteq> set identity_columns"
    using columns_contributing [of identity] by auto
  have ex: "db_exec ?stmt (map snd ?q @ [?w]) (Conn_rows d) =
      Some (map (\<lambda>r. if has_id ?w r then write_cells ?q r else r) (Conn_rows d),
            length (filter (has_id ?w) (Conn_rows d)))"
    using db_exec_update [OF distinct_contributing cols, of ?w "Conn_rows d"] by simp
  have ce: "conn_Exec f ?stmt (map snd ?q @ [?w]) d =
      (if exec_fails f then (None, ?d1)
       else (Some (length (filter (has_id ?w) (Conn_rows d))), ?d2))"
    unfolding conn_Exec_def Let_def ex by simp
  show ?thesis
  proof (cases "MetaData identity \<noteq> None \<and> json_Marshal (MetaData identity) = None")
    case True
    then show ?thesis by (simp add: UpdateIdentity_def collect_fields_contributing)
  next
    case False
    then have cf: "collect_fields identity =
        Inr \<lparr>setFields = number_from (Suc 0) ?q, args = map snd ?q, argPosition = Suc (length ?q)\<rparr>"
      by (simp add: collect_fields_contributing)
    show ?thesis
    proof (cases "?q = []")
      case True
      with False cf show ?thesis by (simp add: UpdateIdentity_def)
    next
      case nonempty: False
      then have ne: "number_from (Suc 0) ?q \<noteq> []"
        using length_number_from [of "Suc 0" ?q] by (metis length_0_conv)
      show ?thesis
        using False nonempty ne
        by (simp add: UpdateIdentity_def cf ce Let_def)
    qed
  qed
qed

lemma update_columns_contributing:
  "update_columns identity =
     (if MetaData identity \<noteq> None \<and> json_Marshal (MetaData identity) = None then []
      else map fst (contributing identity))"
  by (simp add: update_columns_def collect_fields_contributing column_number_from)

lemma canonical_value_unique:
  "(c, v) \<in> set (canonical_fields identity) \<Longrightarrow> (c, v') \<in> set (canonical_fields identity) \<Longrightarrow> v = v'"
  by (rule eq_key_imp_eq_value [of "canonical_fields identity"]) (simp_all add: fst_canonical_fields)

lemma canonical_not_meta: "(c, v) \<in> set (canonical_fields identity) \<Longrightarrow> c \<noteq> ''meta_data''"
  by (auto simp: canonical_fields_def)

lemma canonical_contributes:
  assumes "(c, v) \<in> set (canonical_fields identity)"
  shows "c \<in> fst ` set (contributing identity) \<longleftrightarrow> qualifies v"
proof
  assume "c \<in> fst ` set (contributing identity)"
  then obtain v' where m: "(c, v') \<in> set (contributing identity)" by auto
  have "(c, v') \<notin> set (metadata_field identity)"
    using fst_metadata_field [of identity] canonical_not_meta [OF assms] by force
  with m have "(c, v') \<in> set (canonical_fields identity)" and q: "qualifies v'"
    by (auto simp: contributing_def)
  then have "v' = v" using canonical_value_unique assms by blast
  with q show "qualifies v" by simp
next
  assume "qualifies v"
  with assms have "(c, v) \<in> set (contributing identity)" by (auto simp: contributing_def)
  then show "c \<in> fst ` set (contributing identity)" by force
qed

lemma meta_contributes:
  assumes "json_Marshal (MetaData identity) = Some b"
  shows "''meta_data'' \<in> fst ` set (contributing identity) \<longleftrightarrow> MetaData identity \<noteq> None"
proof -
  have "''meta_data'' \<notin> fst ` set (filter (\<lambda>(c, v). qualifies v) (canonical_fields identity))"
    using canonical_not_meta [of "''meta_data''" _ identity] by auto
  moreover have "''meta_data'' \<in> fst ` set (metadata_field identity) \<longleftrightarrow> MetaData identity \<noteq> None"
    using assms by (cases "MetaData identity") (simp_all add: metadata_field_def)
  ultimately show ?thesis by (auto simp: contributing_def)
qed

lemma not_contributing:
  assumes "did_not_qualify identity c \<or> c = ''identity_id'' \<or> c = ''created_at''"
  shows "c \<notin> fst ` set (contributing identity)"
proof -
  consider (field) v where "(c, v) \<in> set (canonical_fields identity)" "\<not> qualifies v"
    | (meta) "c = ''meta_data''" "MetaData identity = None"
    | (key) "c = ''identity_id'' \<or> c = ''created_at''"
    using assms by (auto simp: did_not_qualify_def list_ex_iff)
  then show ?thesis
  proof cases
    case field
    then show ?thesis using canonical_contributes by blast
  next
    case meta
    have "''meta_data'' \<notin> fst ` set (filter (\<lambda>(c, v). qualifies v) (canonical_fields identity))"
      using canonical_not_meta [of "''meta_data''" _ identity] by auto
    with meta show ?thesis by (auto simp: contributing_def metadata_field_def)
  next
    case key
    then show ?thesis using columns_contributing [of identity] by auto
  qed
qed

lemma UpdateIdentity_rows:
  "Conn_rows (snd (UpdateIdentity f identity d)) = Conn_rows d \<or>
   Conn_rows (snd (UpdateIdentity f identity d)) =
     map (\<lambda>r. if has_id (DBText (IdentityID identity)) r
               then write_cells (contributing identity) r else r) (Conn_rows d)"
  by (simp add: UpdateIdentity_unfold Let_def)

lemma contributing_in_order:
  "map fst (contributing identity) =
     filter (\<lambda>c. c \<in> fst ` set (contributing identity)) update_order"
proof -
  let ?S = "fst ` set (contributing identity)"
  let ?Q = "\<lambda>(c, v). qualifies v"
  have order: "update_order = map fst (canonical_fields identity) @ [''meta_data'']"
    by (simp add: update_order_def fst_canonical_fields)
  have "filter (\<lambda>c. c \<in> ?S) (map fst (canonical_fields identity)) =
        map fst (filter ((\<lambda>c. c \<in> ?S) \<circ> fst) (canonical_fields identity))"
    by (simp add: filter_map)
  also have "filter ((\<lambda>c. c \<in> ?S) \<circ> fst) (canonical_fields identity) =
             filter ?Q (canonical_fields identity)"
  proof (rule filter_cong [OF refl])
    fix x assume x: "x \<in> set (canonical_fields identity)"
    obtain c v where cv: "x = (c, v)" by (cases x)
    show "((\<lambda>c. c \<in> ?S) \<circ> fst) x = ?Q x"
      using canonical_contributes [of c v identity] x cv by simp
  qed
  finally have part1: "filter (\<lambda>c. c \<in> ?S) (map fst (canonical_fields identity)) =
      map fst (filter ?Q (canonical_fields identity))" .
  have nm: "''meta_data'' \<notin> fst ` set (filter ?Q (canonical_fields identity))"
    using canonical_not_meta [of "''meta_data''" _ identity] by auto
  have part2: "filter (\<lambda>c. c \<in> ?S) [''meta_data''] = map fst (metadata_field identity)"
  proof (cases "metadata_field identity = []")
    case True
    with nm show ?thesis by (simp add: contributing_def)
  next
    case False
    then obtain b where "metadata_field identity = [(''meta_data'', DBBytes b)]"
      by (auto simp: metadata_field_def split: option.splits)
    then show ?thesis by (simp add: contributing_def)
  qed
  show ?thesis
    unfolding order filter_append part1 part2 by (simp add: contributing_def)
qed

lemma assignment_text_number_from:
  "map assignment_text (number_from n q) =
     map (\<lambda>(i, c). c @ '' = $'' @ decimal i) (zip [n ..< n + length q] (map fst q))"
proof (induction q arbitrary: n)
  case Nil
  show ?case by simp
next
  case (Cons p q)
  obtain c v where p: "p = (c, v)" by (cases p)
  have "[n ..< n + length (p # q)] = n # [Suc n ..< Suc n + length q]"
    by (subst upt_rec) simp
  then show ?case using Cons.IH [of "Suc n"] p by (simp add: assignment_text_def)
qed

subsection \<open>Partial update\<close>

text \<open>
  C5. When no field of the input qualifies, that is every updatable string is empty, the
  date of birth is the zero time and the metadata is nil (the identifier may be anything),
  \<^verbatim>\<open>UpdateIdentity\<close> returns the bad-request error and the datasource is the one it
  was given: the rows are unmodified and the driver has received no call, so no update
  statement was executed.
\<close>

theorem UpdateIdentity_empty_rejected:
  assumes "IdentityType identity = [] \<and> FirstName identity = [] \<and> LastName identity = []
         \<and> OtherNames identity = [] \<and> Gender identity = [] \<and> EmailAddress identity = []
         \<and> PhoneNumber identity = [] \<and> Nationality identity = []
         \<and> OrganizationName identity = [] \<and> Category identity = [] \<and> Street identity = []
         \<and> Country identity = [] \<and> State identity = [] \<and> PostCode identity = []
         \<and> City identity = []"
    and "IsZero (DOB identity)"
    and "MetaData identity = None"
  shows "UpdateIdentity f identity d =
           (Some (NewAPIError ErrBadRequest ''No fields provided for update''), d)"
proof -
  have "contributing identity = []"
    using assms by (simp add: contributing_def canonical_fields_def metadata_field_def IsZero_def)
  with assms(3) show ?thesis by (simp add: UpdateIdentity_unfold)
qed

theorem UpdateIdentity_empty_rejected_witness:
  "IsZero (DOB (zero_Identity\<lparr>IdentityID := ''idt_1''\<rparr>))
   \<and> MetaData (zero_Identity\<lparr>IdentityID := ''idt_1''\<rparr>) = None
   \<and> UpdateIdentity no_faults (zero_Identity\<lparr>IdentityID := ''idt_1''\<rparr>)
        \<lparr>Conn_rows = [[(''identity_id'', DBText ''idt_1''), (''first_name'', DBText ''A'')]],
         Conn_calls = []\<rparr>
     = (Some (NewAPIError ErrBadRequest ''No fields provided for update''),
        \<lparr>Conn_rows = [[(''identity_id'', DBText ''idt_1''), (''first_name'', DBText ''A'')]],
         Conn_calls = []\<rparr>)"
  using UpdateIdentity_empty_rejected [of "zero_Identity\<lparr>IdentityID := ''idt_1''\<rparr>" no_faults
      "\<lparr>Conn_rows = [[(''identity_id'', DBText ''idt_1''), (''first_name'', DBText ''A'')]],
        Conn_calls = []\<rparr>"]
  by (simp add: zero_Identity_def IsZero_def)

text \<open>
  C2. Whenever \<^verbatim>\<open>UpdateIdentity\<close> gets past the metadata block with the variables \<open>s\<close>:
  the columns of its \<^verbatim>\<open>SET\<close> clause are the canonical order filtered, so they appear in
  that order with \<^verbatim>\<open>meta_data\<close> last; an updatable field is among them exactly when its
  value qualifies (string not empty, time not zero) and the metadata exactly when the
  mapping is not nil; the placeholders are 1, 2, ... in sequence, in the structure and in
  the printed text; the identifier is the argument appended last, bound to the placeholder
  of the \<^verbatim>\<open>WHERE\<close> clause, which is the next number; the store reads each item as the
  field's column with the field's value; and when the clause is not empty this statement
  with these arguments is what is executed.
\<close>

theorem UpdateIdentity_set_clause:
  assumes "collect_fields identity = Inr s"
  shows "map column (setFields s) = filter (\<lambda>c. c \<in> set (map column (setFields s))) update_order
       \<and> (\<forall>(c, v) \<in> set (canonical_fields identity).
             c \<in> set (map column (setFields s)) \<longleftrightarrow> qualifies v)
       \<and> (''meta_data'' \<in> set (map column (setFields s)) \<longleftrightarrow> MetaData identity \<noteq> None)
       \<and> map placeholder (setFields s) = [1 ..< Suc (length (setFields s))]
       \<and> map assignment_text (setFields s) =
           map (\<lambda>(i, c). c @ '' = $'' @ decimal i)
             (zip [1 ..< Suc (length (setFields s))] (map column (setFields s)))
       \<and> argPosition s = Suc (length (setFields s))
       \<and> arg_at (args s @ [DBText (IdentityID identity)]) (argPosition s)
           = Some (DBText (IdentityID identity))
       \<and> resolve_sets (setFields s) (args s @ [DBText (IdentityID identity)])
           = Some (contributing identity)
       \<and> map fst (contributing identity) = map column (setFields s)
       \<and> (setFields s \<noteq> [] \<longrightarrow>
            Conn_calls (snd (UpdateIdentity f identity d)) =
              Conn_calls d @ [CallExec (UpdateSet (setFields s) (argPosition s))
                                (args s @ [DBText (IdentityID identity)])])"
proof -
  let ?q = "contributing identity"
  from assms have ok: "\<not> (MetaData identity \<noteq> None \<and> json_Marshal (MetaData identity) = None)"
    by (auto simp: collect_fields_contributing split: if_splits)
  with assms have s: "s = \<lparr>setFields = number_from 1 ?q, args = map snd ?q,
                          argPosition = Suc (length ?q)\<rparr>"
    by (auto simp: collect_fields_contributing split: if_splits)
  have cols: "map column (setFields s) = map fst ?q" by (simp add: s column_number_from)
  have len: "length (setFields s) = length ?q" by (simp add: s length_number_from)
  have c1: "map column (setFields s) = filter (\<lambda>c. c \<in> set (map column (setFields s))) update_order"
    unfolding cols set_map by (rule contributing_in_order)
  have c2: "\<forall>(c, v) \<in> set (canonical_fields identity).
             c \<in> set (map column (setFields s)) \<longleftrightarrow> qualifies v"
    unfolding cols using canonical_contributes by auto
  obtain b where b: "json_Marshal (MetaData identity) = Some b"
    using ok by (cases "MetaData identity") (auto simp: json_Marshal_def)
  have c3: "''meta_data'' \<in> set (map column (setFields s)) \<longleftrightarrow> MetaData identity \<noteq> None"
    unfolding cols using meta_contributes [OF b] by simp
  have c4: "map placeholder (setFields s) = [1 ..< Suc (length (setFields s))]"
    unfolding len by (simp add: s placeholder_number_from)
  have c5: "map assignment_text (setFields s) =
           map (\<lambda>(i, c). c @ '' = $'' @ decimal i)
             (zip [1 ..< Suc (length (setFields s))] (map column (setFields s)))"
    unfolding len cols using assignment_text_number_from [of 1 ?q] by (simp add: s)
  have c6: "argPosition s = Suc (length (setFields s))" unfolding len by (simp add: s)
  have c7: "arg_at (args s @ [DBText (IdentityID identity)]) (argPosition s)
           = Some (DBText (IdentityID identity))"
    using arg_at_middle [of "map snd ?q" _ "[]"] by (simp add: s)
  have sub: "fst ` set ?q \<subseteq> set identity_columns"
    using columns_contributing [of identity] by auto
  have c8: "resolve_sets (setFields s) (args s @ [DBText (IdentityID identity)]) = Some ?q"
    using resolve_sets_number_from [OF sub, of "[]" "[DBText (IdentityID identity)]"]
    by (simp add: s)
  have c9: "setFields s \<noteq> [] \<longrightarrow>
            Conn_calls (snd (UpdateIdentity f identity d)) =
              Conn_calls d @ [CallExec (UpdateSet (setFields s) (argPosition s))
                                (args s @ [DBText (IdentityID identity)])]"
  proof
    assume "setFields s \<noteq> []"
    then have "?q \<noteq> []" using len by auto
    then show "Conn_calls (snd (UpdateIdentity f identity d)) =
              Conn_calls d @ [CallExec (UpdateSet (setFields s) (argPosition s))
                                (args s @ [DBText (IdentityID identity)])]"
      using ok by (simp add: UpdateIdentity_unfold Let_def s)
  qed
  show ?thesis by (intro conjI c1 c2 c3 c4 c5 c6 c7 c8 cols [symmetric] c9)
qed


theorem UpdateIdentity_set_clause_witness:
  "collect_fields (zero_Identity\<lparr>IdentityID := ''idt_1'', FirstName := ''C'', DOB := 5,
        MetaData := Some []\<rparr>)
     = Inr \<lparr>setFields = [Assign ''first_name'' 1, Assign ''dob'' 2, Assign ''meta_data'' 3],
            args = [DBText ''C'', DBTime 5, DBBytes (JSONText (JObject []))],
            argPosition = 4\<rparr>
   \<and> map assignment_text [Assign ''first_name'' 1, Assign ''dob'' 2, Assign ''meta_data'' 3]
     = [''first_name = $1'', ''dob = $2'', ''meta_data = $3'']
   \<and> update_query [Assign ''first_name'' 1, Assign ''dob'' 2, Assign ''meta_data'' 3] 4
     = [CHR 0x0A, CHR 0x09, CHR 0x09] @ ''UPDATE blnk.identity'' @
       [CHR 0x0A, CHR 0x09, CHR 0x09] @ ''SET first_name = $1, dob = $2, meta_data = $3'' @
       [CHR 0x0A, CHR 0x09, CHR 0x09] @ ''WHERE identity_id = $4'' @ [CHR 0x0A, CHR 0x09]
   \<and> Conn_calls (snd (UpdateIdentity no_faults
         (zero_Identity\<lparr>IdentityID := ''idt_1'', FirstName := ''C'', DOB := 5, MetaData := Some []\<rparr>)
         \<lparr>Conn_rows = [], Conn_calls = []\<rparr>))
     = [CallExec (UpdateSet [Assign ''first_name'' 1, Assign ''dob'' 2, Assign ''meta_data'' 3] 4)
          [DBText ''C'', DBTime 5, DBBytes (JSONText (JObject [])), DBText ''idt_1'']]"
proof -
  let ?x = "zero_Identity\<lparr>IdentityID := ''idt_1'', FirstName := ''C'', DOB := 5, MetaData := Some []\<rparr>"
  let ?s = "\<lparr>setFields = [Assign ''first_name'' 1, Assign ''dob'' 2, Assign ''meta_data'' 3],
            args = [DBText ''C'', DBTime 5, DBBytes (JSONText (JObject []))],
            argPosition = 4\<rparr>"
  have h: "collect_fields ?x = Inr ?s"
    by (simp add: collect_fields_def zero_Identity_def addField_def append_field_def IsZero_def
          json_Marshal_def Let_def)
  have t: "map assignment_text [Assign ''first_name'' 1, Assign ''dob'' 2, Assign ''meta_data'' 3]
     = [''first_name = $1'', ''dob = $2'', ''meta_data = $3'']"
    by (simp add: assignment_text_def decimal.simps)
  have q: "update_query [Assign ''first_name'' 1, Assign ''dob'' 2, Assign ''meta_data'' 3] 4
     = [CHR 0x0A, CHR 0x09, CHR 0x09] @ ''UPDATE blnk.identity'' @
       [CHR 0x0A, CHR 0x09, CHR 0x09] @ ''SET first_name = $1, dob = $2, meta_data = $3'' @
       [CHR 0x0A, CHR 0x09, CHR 0x09] @ ''WHERE identity_id = $4'' @ [CHR 0x0A, CHR 0x09]"
    by (simp add: update_query_def assignment_text_def decimal.simps)
  from UpdateIdentity_set_clause [OF h, of no_faults "\<lparr>Conn_rows = [], Conn_calls = []\<rparr>"]
  have "Conn_calls (snd (UpdateIdentity no_faults ?x \<lparr>Conn_rows = [], Conn_calls = []\<rparr>))
     = [CallExec (UpdateSet [Assign ''first_name'' 1, Assign ''dob'' 2, Assign ''meta_data'' 3] 4)
          [DBText ''C'', DBTime 5, DBBytes (JSONText (JObject [])), DBText ''idt_1'']]"
    by (simp add: zero_Identity_def)
  with h t q show ?thesis by simp
qed

text \<open>The definitions that evaluate an update on a concrete input.\<close>

lemmas eval_update = UpdateIdentity_def collect_fields_def addField_def append_field_def
  IsZero_def json_Marshal_def conn_Exec_def resolve_sets_def arg_at_def identity_columns_def
  has_id_def cell_def write_cells_def zero_Identity_def no_faults_def Let_def

text \<open>
  C9. A column whose field of the input did not qualify, and likewise \<^verbatim>\<open>identity_id\<close> and
  \<^verbatim>\<open>created_at\<close>, is not in the \<^verbatim>\<open>SET\<close> clause, and whatever \<^verbatim>\<open>UpdateIdentity\<close> returns
  that column holds in every row of the table what it held before.
\<close>

theorem UpdateIdentity_frame:
  assumes "did_not_qualify identity c \<or> c = ''identity_id'' \<or> c = ''created_at''"
  shows "c \<notin> set (update_columns identity)
       \<and> map (\<lambda>r. cell r c) (Conn_rows (snd (UpdateIdentity f identity d)))
         = map (\<lambda>r. cell r c) (Conn_rows d)"
proof -
  have nc: "c \<notin> fst ` set (contributing identity)"
    using not_contributing [OF assms] .
  then have a: "c \<notin> set (update_columns identity)"
    by (simp add: update_columns_contributing)
  have "map (\<lambda>r. cell r c)
          (map (\<lambda>r. if has_id (DBText (IdentityID identity)) r
                     then write_cells (contributing identity) r else r) (Conn_rows d))
        = map (\<lambda>r. cell r c) (Conn_rows d)"
    using nc by (simp add: cell_write_cells_other)
  then have b: "map (\<lambda>r. cell r c) (Conn_rows (snd (UpdateIdentity f identity d)))
         = map (\<lambda>r. cell r c) (Conn_rows d)"
    using UpdateIdentity_rows [of f identity d] by auto
  from a b show ?thesis by simp
qed

theorem UpdateIdentity_frame_witness:
  "did_not_qualify (zero_Identity\<lparr>IdentityID := ''idt_1'', FirstName := ''C''\<rparr>) ''last_name''
   \<and> UpdateIdentity no_faults (zero_Identity\<lparr>IdentityID := ''idt_1'', FirstName := ''C''\<rparr>)
        \<lparr>Conn_rows = [[(''identity_id'', DBText ''idt_1''), (''first_name'', DBText ''A''),
                        (''last_name'', DBText ''B''), (''created_at'', DBTime 100)]],
         Conn_calls = []\<rparr>
     = (None,
        \<lparr>Conn_rows = [[(''identity_id'', DBText ''idt_1''), (''first_name'', DBText ''C''),
                        (''last_name'', DBText ''B''), (''created_at'', DBTime 100)]],
         Conn_calls = [CallExec (UpdateSet [Assign ''first_name'' 1] 2)
                         [DBText ''C'', DBText ''idt_1'']]\<rparr>)
   \<and> map (\<lambda>r. cell r ''last_name'')
        (Conn_rows (snd (UpdateIdentity no_faults
           (zero_Identity\<lparr>IdentityID := ''idt_1'', FirstName := ''C''\<rparr>)
           \<lparr>Conn_rows = [[(''identity_id'', DBText ''idt_1''), (''first_name'', DBText ''A''),
                           (''last_name'', DBText ''B''), (''created_at'', DBTime 100)]],
            Conn_calls = []\<rparr>)))
     = [DBText ''B'']"
proof -
  let ?x = "zero_Identity\<lparr>IdentityID := ''idt_1'', FirstName := ''C''\<rparr>"
  let ?d = "\<lparr>Conn_rows = [[(''identity_id'', DBText ''idt_1''), (''first_name'', DBText ''A''),
                        (''last_name'', DBText ''B''), (''created_at'', DBTime 100)]],
         Conn_calls = []\<rparr>"
  have h: "did_not_qualify ?x ''last_name''"
    by (simp add: did_not_qualify_def canonical_fields_def zero_Identity_def)
  have e: "UpdateIdentity no_faults ?x ?d
     = (None,
        \<lparr>Conn_rows = [[(''identity_id'', DBText ''idt_1''), (''first_name'', DBText ''C''),
                        (''last_name'', DBText ''B''), (''created_at'', DBTime 100)]],
         Conn_calls = [CallExec (UpdateSet [Assign ''first_name'' 1] 2)
                         [DBText ''C'', DBText ''idt_1'']]\<rparr>)"
    by (simp add: eval_update)
  from UpdateIdentity_frame [of ?x "''last_name''" no_faults ?d] h
  have "map (\<lambda>r. cell r ''last_name'') (Conn_rows (snd (UpdateIdentity no_faults ?x ?d)))
     = [DBText ''B'']"
    by (simp add: cell_def)
  with h e show ?thesis by simp
qed






subsection \<open>Lookup by identifier\<close>

lemma no_match_filter:
  assumes "\<forall>r \<in> set rows. cell r ''identity_id'' \<noteq> DBText ident"
  shows "filter (has_id (DBText ident)) rows = []"
  using assms by (auto simp: filter_empty_conv has_id_def)

lemma no_match_keep:
  assumes "\<forall>r \<in> set rows. cell r ''identity_id'' \<noteq> DBText ident"
  shows "filter (\<lambda>r. \<not> has_id (DBText ident) r) rows = rows"
    and "map (\<lambda>r. if has_id (DBText ident) r then g r else r) rows = rows"
  using assms by (auto simp: has_id_def map_idI)

lemma tx_QueryRow_unfold:
  "tx_QueryRow f ident d =
     (if query_fails f then RowError
      else case filter (has_id (DBText ident)) (Conn_rows d) of
             [] \<Rightarrow> NoRows
           | r # _ \<Rightarrow> Row (map (cell r) identity_columns),
      d\<lparr>Conn_calls := Conn_calls d @ [CallQueryRow ident]\<rparr>)"
  by (simp add: tx_QueryRow_def Let_def split: list.splits)

lemma GetIdentityByID_unfold:
  "GetIdentityByID f ident d =
     (if begin_fails f
      then (Inl (NewAPIError ErrInternalServer ''Failed to begin transaction''),
            d\<lparr>Conn_calls := Conn_calls d @ [CallBeginTx]\<rparr>)
      else
        (case row_Scan (fst (tx_QueryRow f ident (d\<lparr>Conn_calls := Conn_calls d @ [CallBeginTx]\<rparr>))) of
           Inl err \<Rightarrow>
             (Inl (if err = ErrNoRows then NewAPIError ErrNotFound (not_found_message ident)
                   else NewAPIError ErrInternalServer ''Failed to retrieve identity''),
              d\<lparr>Conn_calls := Conn_calls d @ [CallBeginTx, CallQueryRow ident, CallRollback]\<rparr>)
         | Inr (identity, metaDataJSON) \<Rightarrow>
             (case json_Unmarshal metaDataJSON of
                None \<Rightarrow>
                  (Inl (NewAPIError ErrInternalServer ''Failed to unmarshal metadata''),
                   d\<lparr>Conn_calls := Conn_calls d @ [CallBeginTx, CallQueryRow ident, CallRollback]\<rparr>)
              | Some m \<Rightarrow>
                  (if commit_fails f
                   then Inl (NewAPIError ErrInternalServer ''Failed to commit transaction'')
                   else Inr (identity\<lparr>MetaData := m\<rparr>),
                   d\<lparr>Conn_calls := Conn_calls d @ [CallBeginTx, CallQueryRow ident, CallCommit]\<rparr>))))"
proof (cases "begin_fails f")
  case True
  then show ?thesis by (simp add: GetIdentityByID_def conn_BeginTx_def)
next
  case False
  let ?d1 = "d\<lparr>Conn_calls := Conn_calls d @ [CallBeginTx]\<rparr>"
  obtain row where q: "tx_QueryRow f ident ?d1 =
      (row, d\<lparr>Conn_calls := Conn_calls d @ [CallBeginTx, CallQueryRow ident]\<rparr>)"
    by (simp add: tx_QueryRow_unfold)
  show ?thesis
  proof (cases "row_Scan row")
    case (Inl err)
    with False q show ?thesis
      by (simp add: GetIdentityByID_def conn_BeginTx_def tx_Rollback_def)
  next
    case (Inr p)
    obtain identity b where p: "p = (identity, b)" by (cases p)
    show ?thesis
    proof (cases "json_Unmarshal b")
      case None
      with False q Inr p show ?thesis
        by (simp add: GetIdentityByID_def conn_BeginTx_def tx_Rollback_def)
    next
      case (Some m)
      with False q Inr p show ?thesis
        by (simp add: GetIdentityByID_def conn_BeginTx_def tx_Commit_def)
    qed
  qed
qed


text \<open>
  C4, as the code has it. In every failing run of \<^verbatim>\<open>GetIdentityByID\<close> whose transaction
  has begun, the rows are untouched and the driver has received exactly three calls: the
  begin, the query, and then \<^verbatim>\<open>Rollback\<close> when the scan failed (no row among the causes)
  or the metadata did not decode, but \<^verbatim>\<open>Commit\<close> and no \<^verbatim>\<open>Rollback\<close> when the commit is
  what failed.
\<close>

theorem GetIdentityByID_failure_paths:
  assumes "\<not> begin_fails f" and "GetIdentityByID f ident d = (Inl e, d')"
  shows "Conn_rows d' = Conn_rows d
       \<and> Conn_calls d' = Conn_calls d @ [CallBeginTx, CallQueryRow ident,
            if e = NewAPIError ErrInternalServer ''Failed to commit transaction''
            then CallCommit else CallRollback]"
proof (cases "row_Scan (fst (tx_QueryRow f ident (d\<lparr>Conn_calls := Conn_calls d @ [CallBeginTx]\<rparr>)))")
  case (Inl err)
  with assms show ?thesis by (auto simp: GetIdentityByID_unfold split: if_splits)
next
  case (Inr p)
  obtain identity b where p: "p = (identity, b)" by (cases p)
  show ?thesis
  proof (cases "json_Unmarshal b")
    case None
    with assms Inr p show ?thesis by (auto simp: GetIdentityByID_unfold)
  next
    case (Some m)
    with assms Inr p show ?thesis by (auto simp: GetIdentityByID_unfold split: if_splits)
  qed
qed

text \<open>The definitions that evaluate a lookup on a concrete input.\<close>

lemmas eval_get = GetIdentityByID_def conn_BeginTx_def tx_QueryRow_def tx_Rollback_def
  tx_Commit_def row_Scan_def Scan_def scan_string_def scan_time_def scan_bytes_def
  json_Unmarshal_def has_id_def cell_def identity_columns_def insert_args_def
  zero_Identity_def no_faults_def not_found_message_def Let_def

theorem GetIdentityByID_failure_paths_witness:
  "\<not> begin_fails no_faults
   \<and> GetIdentityByID no_faults ''idt_9''
        \<lparr>Conn_rows = [zip identity_columns
            (insert_args (zero_Identity\<lparr>IdentityID := ''idt_1''\<rparr>) (JSONText JNull))],
         Conn_calls = []\<rparr>
     = (Inl (NewAPIError ErrNotFound ''Identity with ID 'idt_9' not found''),
        \<lparr>Conn_rows = [zip identity_columns
            (insert_args (zero_Identity\<lparr>IdentityID := ''idt_1''\<rparr>) (JSONText JNull))],
         Conn_calls = [CallBeginTx, CallQueryRow ''idt_9'', CallRollback]\<rparr>)"
proof -
  let ?d = "\<lparr>Conn_rows = [zip identity_columns
            (insert_args (zero_Identity\<lparr>IdentityID := ''idt_1''\<rparr>) (JSONText JNull))],
         Conn_calls = []\<rparr>"
  let ?e = "NewAPIError ErrNotFound ''Identity with ID 'idt_9' not found''"
  obtain d' where r: "GetIdentityByID no_faults ''idt_9'' ?d = (Inl ?e, d')"
    by (simp add: eval_get)
  have b: "\<not> begin_fails no_faults" by (simp add: no_faults_def)
  from GetIdentityByID_failure_paths [OF b r]
  have "d' = \<lparr>Conn_rows = Conn_rows ?d,
               Conn_calls = [CallBeginTx, CallQueryRow ''idt_9'', CallRollback]\<rparr>"
    by simp
  with r b show ?thesis by simp
qed

text \<open>
  C4 as stated fails when the commit fails: the error is returned and the transaction has
  received no \<^verbatim>\<open>Rollback\<close>.
\<close>

theorem GetIdentityByID_commit_failure_counterexample:
  "GetIdentityByID (no_faults\<lparr>commit_fails := True\<rparr>) ''idt_1''
        \<lparr>Conn_rows = [zip identity_columns
            (insert_args (zero_Identity\<lparr>IdentityID := ''idt_1''\<rparr>) (JSONText JNull))],
         Conn_calls = []\<rparr>
     = (Inl (NewAPIError ErrInternalServer ''Failed to commit transaction''),
        \<lparr>Conn_rows = [zip identity_columns
            (insert_args (zero_Identity\<lparr>IdentityID := ''idt_1''\<rparr>) (JSONText JNull))],
         Conn_calls = [CallBeginTx, CallQueryRow ''idt_1'', CallCommit]\<rparr>)
   \<and> CallRollback \<notin> set [CallBeginTx, CallQueryRow ''idt_1'', CallCommit]"
  by (simp add: eval_get)

subsection \<open>Creation followed by lookup\<close>


lemma inserted_row_id:
  "cell (zip identity_columns (insert_args x b)) ''identity_id'' = DBText (IdentityID x)"
  by (simp add: identity_columns_def insert_args_def cell_def)


lemma db_exec_insert:
  "db_exec (InsertInto identity_columns) (insert_args x b) rows =
     (if \<exists>r \<in> set rows. has_id (DBText (IdentityID x)) r then None
      else Some (rows @ [zip identity_columns (insert_args x b)], 1))"
proof -
  have l: "length (insert_args x b) = length identity_columns"
    by (simp add: insert_args_def identity_columns_def)
  have dc: "distinct identity_columns" by (simp add: identity_columns_def)
  show ?thesis by (simp add: l dc inserted_row_id Let_def)
qed

lemma CreateIdentity_unfold:
  "CreateIdentity f token now identity d =
     (case json_Marshal (MetaData identity) of
        None \<Rightarrow>
          ((identity, Some (NewAPIError ErrInternalServer ''Failed to marshal metadata'')), d)
      | Some b \<Rightarrow>
          let created = identity\<lparr>IdentityID := ''idt'' @ token, CreatedAt := now\<rparr>;
              d1 = d\<lparr>Conn_calls := Conn_calls d @
                     [CallExec (InsertInto identity_columns) (insert_args created b)]\<rparr>
          in if exec_fails f \<or> (\<exists>r \<in> set (Conn_rows d). has_id (DBText (''idt'' @ token)) r)
             then ((created, Some (NewAPIError ErrInternalServer ''Failed to create identity'')), d1)
             else ((created, None),
                   d1\<lparr>Conn_rows := Conn_rows d @ [zip identity_columns (insert_args created b)]\<rparr>))"
  by (cases "json_Marshal (MetaData identity)")
     (simp_all add: CreateIdentity_def conn_Exec_def db_exec_insert GenerateUUIDWithSuffix_def Let_def
        del: db_exec.simps)




text \<open>
  C8. A successful \<^verbatim>\<open>CreateIdentity\<close> returns an identity whose identifier is what the
  generator makes of the tag \<^verbatim>\<open>idt\<close>: not empty and starting with \<^verbatim>\<open>idt\<close>; whose
  creation time is the clock's reading; whose other fields are the caller's. Identifier
  and time that the caller supplied play no part: any other pair gives the same result.
  A further successful call on the resulting datasource returns another identifier, and
  so does the generator on any other token.
\<close>

theorem CreateIdentity_assigns:
  assumes "CreateIdentity f token now identity d = ((created, None), d')"
  shows "IdentityID created = GenerateUUIDWithSuffix ''idt'' token
       \<and> IdentityID created \<noteq> []
       \<and> take 3 (IdentityID created) = ''idt''
       \<and> CreatedAt created = now
       \<and> created = identity\<lparr>IdentityID := IdentityID created, CreatedAt := now\<rparr>
       \<and> CreateIdentity f token now (identity\<lparr>IdentityID := i, CreatedAt := t\<rparr>) d
           = ((created, None), d')
       \<and> (\<forall>f2 token2 now2 identity2 created2 d2.
             CreateIdentity f2 token2 now2 identity2 d' = ((created2, None), d2)
             \<longrightarrow> IdentityID created2 \<noteq> IdentityID created)
       \<and> (\<forall>token2. token2 \<noteq> token
             \<longrightarrow> GenerateUUIDWithSuffix ''idt'' token2 \<noteq> IdentityID created)"
proof -
  from assms obtain b where b: "json_Marshal (MetaData identity) = Some b"
    by (cases "json_Marshal (MetaData identity)") (auto simp: CreateIdentity_unfold)
  let ?c = "identity\<lparr>IdentityID := ''idt'' @ token, CreatedAt := now\<rparr>"
  let ?r = "zip identity_columns (insert_args ?c b)"
  from assms b have created: "created = ?c"
    and rows: "Conn_rows d' = Conn_rows d @ [?r]"
    by (auto simp: CreateIdentity_unfold Let_def split: if_splits)
  have c1: "IdentityID created = GenerateUUIDWithSuffix ''idt'' token"
    by (simp add: created GenerateUUIDWithSuffix_def)
  have c2: "IdentityID created \<noteq> []" by (simp add: created)
  have c3: "take 3 (IdentityID created) = ''idt''" by (simp add: created)
  have c4: "CreatedAt created = now" by (simp add: created)
  have c5: "created = identity\<lparr>IdentityID := IdentityID created, CreatedAt := now\<rparr>"
    by (simp add: created)
  have c6: "CreateIdentity f token now (identity\<lparr>IdentityID := i, CreatedAt := t\<rparr>) d
           = ((created, None), d')"
    using assms b by (simp add: CreateIdentity_unfold Let_def)
  have c7: "\<forall>f2 token2 now2 identity2 created2 d2.
             CreateIdentity f2 token2 now2 identity2 d' = ((created2, None), d2)
             \<longrightarrow> IdentityID created2 \<noteq> IdentityID created"
  proof (intro allI impI)
    fix f2 token2 now2 identity2 created2 d2
    assume second: "CreateIdentity f2 token2 now2 identity2 d' = ((created2, None), d2)"
    then obtain b2 where b2: "json_Marshal (MetaData identity2) = Some b2"
      by (cases "json_Marshal (MetaData identity2)") (auto simp: CreateIdentity_unfold)
    from second b2 have id2: "IdentityID created2 = ''idt'' @ token2"
      and fresh: "\<forall>r \<in> set (Conn_rows d'). \<not> has_id (DBText (''idt'' @ token2)) r"
      by (auto simp: CreateIdentity_unfold Let_def split: if_splits)
    have "?r \<in> set (Conn_rows d')" by (simp add: rows)
    with fresh have "\<not> has_id (DBText (''idt'' @ token2)) ?r" by blast
    then have "''idt'' @ token2 \<noteq> ''idt'' @ token"
      by (auto simp: has_id_def inserted_row_id)
    then show "IdentityID created2 \<noteq> IdentityID created" by (simp add: id2 created)
  qed
  have c8: "\<forall>token2. token2 \<noteq> token
             \<longrightarrow> GenerateUUIDWithSuffix ''idt'' token2 \<noteq> IdentityID created"
    by (simp add: created GenerateUUIDWithSuffix_def)
  show ?thesis by (intro conjI c1 c2 c3 c4 c5 c6 c7 c8)
qed


theorem CreateIdentity_assigns_witness:
  "CreateIdentity no_faults ''_7f3a'' 1700000000
       (zero_Identity\<lparr>IdentityID := ''caller'', LastName := ''B'', CreatedAt := 5\<rparr>)
       \<lparr>Conn_rows = [], Conn_calls = []\<rparr>
     = ((zero_Identity\<lparr>IdentityID := ''idt_7f3a'', LastName := ''B'', CreatedAt := 1700000000\<rparr>, None),
        snd (CreateIdentity no_faults ''_7f3a'' 1700000000
               (zero_Identity\<lparr>IdentityID := ''caller'', LastName := ''B'', CreatedAt := 5\<rparr>)
               \<lparr>Conn_rows = [], Conn_calls = []\<rparr>))
   \<and> take 3 ''idt_7f3a'' = ''idt''
   \<and> GenerateUUIDWithSuffix ''idt'' ''_7f3a'' = ''idt_7f3a''"
proof -
  let ?x = "zero_Identity\<lparr>IdentityID := ''caller'', LastName := ''B'', CreatedAt := 5\<rparr>"
  let ?d = "\<lparr>Conn_rows = [], Conn_calls = []\<rparr>"
  let ?c = "zero_Identity\<lparr>IdentityID := ''idt_7f3a'', LastName := ''B'', CreatedAt := 1700000000\<rparr>"
  have c: "CreateIdentity no_faults ''_7f3a'' 1700000000 ?x ?d
      = ((?c, None), snd (CreateIdentity no_faults ''_7f3a'' 1700000000 ?x ?d))"
    by (simp add: CreateIdentity_unfold json_Marshal_def no_faults_def zero_Identity_def Let_def)
  note a = CreateIdentity_assigns [OF c, where i = "[]" and t = 0]
  have "GenerateUUIDWithSuffix ''idt'' ''_7f3a'' = ''idt_7f3a''"
    using a [THEN conjunct1] by simp
  moreover have "take 3 ''idt_7f3a'' = ''idt''"
    using a [THEN conjunct2, THEN conjunct2, THEN conjunct1] by simp
  ultimately show ?thesis using c by simp
qed

subsection \<open>Identifiers that match no row\<close>

text \<open>
  C6. When no stored row has the identifier and the driver does not fail,
  \<^verbatim>\<open>GetIdentityByID\<close> returns the not-found error, \<^verbatim>\<open>UpdateIdentity\<close> with that
  identifier and a \<^verbatim>\<open>SET\<close> clause that is not empty returns it, and \<^verbatim>\<open>DeleteIdentity\<close>
  returns it; each time the rows of the table are what they were.
\<close>

theorem not_found_on_missing_id:
  assumes "\<forall>r \<in> set (Conn_rows d). cell r ''identity_id'' \<noteq> DBText ident"
      and "\<not> begin_fails f \<and> \<not> query_fails f \<and> \<not> exec_fails f \<and> \<not> rows_affected_fails f"
  shows "GetIdentityByID f ident d =
           (Inl (NewAPIError ErrNotFound (not_found_message ident)),
            d\<lparr>Conn_calls := Conn_calls d @ [CallBeginTx, CallQueryRow ident, CallRollback]\<rparr>)
       \<and> (IdentityID identity = ident \<longrightarrow> update_columns identity \<noteq> [] \<longrightarrow>
            fst (UpdateIdentity f identity d) = Some (NewAPIError ErrNotFound (not_found_message ident))
            \<and> Conn_rows (snd (UpdateIdentity f identity d)) = Conn_rows d)
       \<and> DeleteIdentity f ident d =
           (Some (NewAPIError ErrNotFound (not_found_message ident)),
            d\<lparr>Conn_calls := Conn_calls d @ [CallExec DeleteWhereID [DBText ident]]\<rparr>)"
proof -
  note none = no_match_filter [OF assms(1)]
  note keep = no_match_keep [OF assms(1)]
  have c1: "GetIdentityByID f ident d =
           (Inl (NewAPIError ErrNotFound (not_found_message ident)),
            d\<lparr>Conn_calls := Conn_calls d @ [CallBeginTx, CallQueryRow ident, CallRollback]\<rparr>)"
    using assms(2) none
    by (simp add: GetIdentityByID_unfold tx_QueryRow_unfold row_Scan_def)
  have c2: "IdentityID identity = ident \<longrightarrow> update_columns identity \<noteq> [] \<longrightarrow>
            fst (UpdateIdentity f identity d) = Some (NewAPIError ErrNotFound (not_found_message ident))
            \<and> Conn_rows (snd (UpdateIdentity f identity d)) = Conn_rows d"
  proof (intro impI)
    assume i: "IdentityID identity = ident" and u: "update_columns identity \<noteq> []"
    from u have ok: "\<not> (MetaData identity \<noteq> None \<and> json_Marshal (MetaData identity) = None)"
      and ne: "contributing identity \<noteq> []"
      by (auto simp: update_columns_contributing split: if_splits)
    show "fst (UpdateIdentity f identity d) = Some (NewAPIError ErrNotFound (not_found_message ident))
            \<and> Conn_rows (snd (UpdateIdentity f identity d)) = Conn_rows d"
      using assms(2) ok ne none keep(2) i
      by (simp add: UpdateIdentity_unfold Let_def)
  qed
  have c3: "DeleteIdentity f ident d =
           (Some (NewAPIError ErrNotFound (not_found_message ident)),
            d\<lparr>Conn_calls := Conn_calls d @ [CallExec DeleteWhereID [DBText ident]]\<rparr>)"
    using assms(2) none keep(1)
    by (simp add: DeleteIdentity_def conn_Exec_def arg_at_def Let_def)
  show ?thesis by (intro conjI c1 c2 c3)
qed


theorem not_found_on_missing_id_witness:
  "GetIdentityByID no_faults ''idt_9''
       \<lparr>Conn_rows = [[(''identity_id'', DBText ''idt_1''), (''first_name'', DBText ''A'')]],
        Conn_calls = []\<rparr>
     = (Inl (NewAPIError ErrNotFound (not_found_message ''idt_9'')),
        \<lparr>Conn_rows = [[(''identity_id'', DBText ''idt_1''), (''first_name'', DBText ''A'')]],
         Conn_calls = [CallBeginTx, CallQueryRow ''idt_9'', CallRollback]\<rparr>)
   \<and> fst (UpdateIdentity no_faults (zero_Identity\<lparr>IdentityID := ''idt_9'', FirstName := ''C''\<rparr>)
       \<lparr>Conn_rows = [[(''identity_id'', DBText ''idt_1''), (''first_name'', DBText ''A'')]],
        Conn_calls = []\<rparr>)
     = Some (NewAPIError ErrNotFound (not_found_message ''idt_9''))
   \<and> Conn_rows (snd (UpdateIdentity no_faults
         (zero_Identity\<lparr>IdentityID := ''idt_9'', FirstName := ''C''\<rparr>)
         \<lparr>Conn_rows = [[(''identity_id'', DBText ''idt_1''), (''first_name'', DBText ''A'')]],
          Conn_calls = []\<rparr>))
     = [[(''identity_id'', DBText ''idt_1''), (''first_name'', DBText ''A'')]]
   \<and> DeleteIdentity no_faults ''idt_9''
       \<lparr>Conn_rows = [[(''identity_id'', DBText ''idt_1''), (''first_name'', DBText ''A'')]],
        Conn_calls = []\<rparr>
     = (Some (NewAPIError ErrNotFound (not_found_message ''idt_9'')),
        \<lparr>Conn_rows = [[(''identity_id'', DBText ''idt_1''), (''first_name'', DBText ''A'')]],
         Conn_calls = [CallExec DeleteWhereID [DBText ''idt_9'']]\<rparr>)"
proof -
  let ?d = "\<lparr>Conn_rows = [[(''identity_id'', DBText ''idt_1''), (''first_name'', DBText ''A'')]],
        Conn_calls = []\<rparr>"
  let ?x = "zero_Identity\<lparr>IdentityID := ''idt_9'', FirstName := ''C''\<rparr>"
  have h1: "\<forall>r \<in> set (Conn_rows ?d). cell r ''identity_id'' \<noteq> DBText ''idt_9''"
    by (simp add: cell_def)
  have h2: "\<not> begin_fails no_faults \<and> \<not> query_fails no_faults \<and> \<not> exec_fails no_faults
            \<and> \<not> rows_affected_fails no_faults"
    by (simp add: no_faults_def)
  have u: "update_columns ?x \<noteq> []"
    by (simp add: update_columns_def collect_fields_def addField_def append_field_def IsZero_def
          zero_Identity_def Let_def)
  have i: "IdentityID ?x = ''idt_9''" by simp
  note t = not_found_on_missing_id [OF h1 h2, of ?x]
  have g: "GetIdentityByID no_faults ''idt_9'' ?d
     = (Inl (NewAPIError ErrNotFound (not_found_message ''idt_9'')),
        \<lparr>Conn_rows = Conn_rows ?d,
         Conn_calls = [CallBeginTx, CallQueryRow ''idt_9'', CallRollback]\<rparr>)"
    using t [THEN conjunct1] by simp
  have up: "fst (UpdateIdentity no_faults ?x ?d)
              = Some (NewAPIError ErrNotFound (not_found_message ''idt_9''))
            \<and> Conn_rows (snd (UpdateIdentity no_faults ?x ?d)) = Conn_rows ?d"
    using t [THEN conjunct2, THEN conjunct1] i u by blast
  have de: "DeleteIdentity no_faults ''idt_9'' ?d
     = (Some (NewAPIError ErrNotFound (not_found_message ''idt_9'')),
        \<lparr>Conn_rows = Conn_rows ?d,
         Conn_calls = [CallExec DeleteWhereID [DBText ''idt_9'']]\<rparr>)"
    using t [THEN conjunct2, THEN conjunct2] by simp
  from g up de show ?thesis by simp
qed

subsection \<open>Listing\<close>























end
